theory Spec2Isabelle
  imports Complex_Main "HOL-Library.Log_Nat"
begin

section \<open>Python floats\<close>

text \<open>
  The loan calculator of \<^verbatim>\<open>main.py\<close> and \<^verbatim>\<open>backup.py\<close> computes with Python
  floats, which are IEEE 754 binary64 numbers. A float is modelled by its sign and its
  magnitude, an exact rational; every arithmetic operation computes the exact result and
  rounds it to the nearest binary64 number, ties to even, as the hardware does. Overflow
  gives an infinity, and the invalid operations give NaN.
\<close>

datatype pyfloat = Finite bool rat | Infinity bool | NaN

text \<open>The signed value of a finite float: the sign bit is \<open>True\<close> for a negative number.\<close>

definition sval :: "bool \<Rightarrow> rat \<Rightarrow> rat" where
  "sval s m = (if s then - m else m)"

text \<open>Rounding a rational to the nearest integer, ties to the even one.\<close>

definition rhe :: "rat \<Rightarrow> int" where
  "rhe x = (let f = \<lfloor>x\<rfloor>; d = x - of_int f in
     if d < 1 / 2 then f else if 1 / 2 < d then f + 1 else if even f then f else f + 1)"

text \<open>The binary exponent of a positive rational: \<open>2 ^ ilog2 q \<le> q < 2 ^ (ilog2 q + 1)\<close>.\<close>

definition ilog2 :: "rat \<Rightarrow> int" where
  "ilog2 q = (if 1 \<le> q then bitlen \<lfloor>q\<rfloor> - 1 else - bitlen (\<lceil>1 / q\<rceil> - 1))"

text \<open>
  Rounding a magnitude to 53 significant bits; below \<open>2 ^ -1022\<close> the spacing stays
  \<open>2 ^ -1074\<close> (subnormal numbers).
\<close>

definition round_mag :: "rat \<Rightarrow> rat" where
  "round_mag q = (if q = 0 then 0 else
     let e = max (ilog2 q - 52) (- 1074) in of_int (rhe (q / power_int 2 e)) * power_int 2 e)"

definition rnd :: "bool \<Rightarrow> rat \<Rightarrow> pyfloat" where
  "rnd s q = (let r = round_mag q in if 2 ^ 1024 \<le> r then Infinity s else Finite s r)"

text \<open>A non-negative decimal literal of the source denotes the float nearest to it.\<close>

definition float_lit :: "rat \<Rightarrow> pyfloat" where
  "float_lit q = rnd False q"

text \<open>A small integer constant of the source, which Python compares and converts exactly.\<close>

definition int_const :: "int \<Rightarrow> pyfloat" where
  "int_const n = Finite (n < 0) (of_int \<bar>n\<bar>)"

subsection \<open>Comparisons\<close>

text \<open>Every comparison with NaN is false; the two zeros are equal.\<close>

fun fless :: "pyfloat \<Rightarrow> pyfloat \<Rightarrow> bool" where
  "fless NaN y = False"
| "fless x NaN = False"
| "fless (Infinity s) (Infinity t) = (s \<and> \<not> t)"
| "fless (Infinity s) (Finite t n) = s"
| "fless (Finite s m) (Infinity t) = (\<not> t)"
| "fless (Finite s m) (Finite t n) = (sval s m < sval t n)"

fun feq :: "pyfloat \<Rightarrow> pyfloat \<Rightarrow> bool" where
  "feq NaN y = False"
| "feq x NaN = False"
| "feq (Infinity s) (Infinity t) = (s = t)"
| "feq (Infinity s) (Finite t n) = False"
| "feq (Finite s m) (Infinity t) = False"
| "feq (Finite s m) (Finite t n) = (sval s m = sval t n)"

definition fle :: "pyfloat \<Rightarrow> pyfloat \<Rightarrow> bool" where
  "fle x y = (fless x y \<or> feq x y)"

section \<open>The insurance rate lookup\<close>

text \<open>
  \<^verbatim>\<open>calculate_insurance_rate\<close>, the same in both source files. \<open>None\<close> is Python's
  \<^verbatim>\<open>None\<close>: no rate applies.
\<close>

definition calculate_insurance_rate :: "pyfloat \<Rightarrow> int \<Rightarrow> pyfloat option" where
  "calculate_insurance_rate loan_percentage loan_period =
    (if fless (float_lit (9501 / 100)) loan_percentage then None
     else if fle (int_const 70) loan_percentage \<and> fle loan_percentage (float_lit (8099 / 100))
       then Some (float_lit (32 / 10000))
     else if feq loan_percentage (int_const 81)
       then (if loan_period \<le> 25 then Some (float_lit (21 / 10000))
             else Some (float_lit (32 / 10000)))
     else if fle (float_lit (8101 / 100)) loan_percentage \<and> fle loan_percentage (int_const 90)
       then (if loan_period \<le> 25 then Some (float_lit (41 / 10000))
             else Some (float_lit (52 / 10000)))
     else if fle (float_lit (9001 / 100)) loan_percentage \<and> fle loan_percentage (int_const 95)
       then (if loan_period \<le> 25 then Some (float_lit (67 / 10000))
             else Some (float_lit (78 / 10000)))
     else None)"

section \<open>The literals of the rate table\<close>

lemma lit_9501: "float_lit (9501 / 100) = Finite False (6685734384319857 / 70368744177664)"
  by code_simp

lemma lit_8099: "float_lit (8099 / 100) = Finite False (5699164590949007 / 70368744177664)"
  by code_simp

lemma lit_8101: "float_lit (8101 / 100) = Finite False (5700571965832561 / 70368744177664)"
  by code_simp

lemma lit_9001: "float_lit (9001 / 100) = Finite False (6333890663431537 / 70368744177664)"
  by code_simp

lemmas rate_lits = lit_9501 lit_8099 lit_8101 lit_9001

section \<open>The rate lookup at the test points\<close>

text \<open>
  C2: the rate lookup returns the band values at the named test points: 0.0032 at (80, 20),
  0.0021 at (81, 20), 0.0032 at (81, 30), 0.0052 at (85, 30), 0.0067 at (95, 20), no rate
  at (96, 20) and at (50, 20); and at a loan percentage of exactly 81 the rate is 0.0021 for
  every loan period up to 25 and 0.0032 for every longer one.
\<close>

theorem rate_test_points:
  "calculate_insurance_rate (int_const 80) 20 = Some (float_lit (32 / 10000))
   \<and> calculate_insurance_rate (int_const 81) 20 = Some (float_lit (21 / 10000))
   \<and> calculate_insurance_rate (int_const 81) 30 = Some (float_lit (32 / 10000))
   \<and> calculate_insurance_rate (int_const 85) 30 = Some (float_lit (52 / 10000))
   \<and> calculate_insurance_rate (int_const 95) 20 = Some (float_lit (67 / 10000))
   \<and> calculate_insurance_rate (int_const 96) 20 = None
   \<and> calculate_insurance_rate (int_const 50) 20 = None
   \<and> calculate_insurance_rate (int_const 81) p =
       (if p \<le> 25 then Some (float_lit (21 / 10000)) else Some (float_lit (32 / 10000)))"
  by (simp add: calculate_insurance_rate_def rate_lits int_const_def fle_def sval_def)

end
